theory Spec2Isabelle
  imports Main "HOL-Library.Sublist"
begin

section \<open>Values exchanged with the endpoint and the presentation surface\<close>

text \<open>
  The chat client of this repository (\<^verbatim>\<open>src/chat.py\<close>, \<^verbatim>\<open>src/utils.py\<close> and the three
  \<^verbatim>\<open>LV*_ui.py\<close> variants) moves Python lists of dictionaries around and prints some of
  them as JSON. The values that a response body can decode to, and the Python lists and
  dictionaries the methods build from them, are values of one type. A Python \<^verbatim>\<open>str\<close> is a
  \<^typ>\<open>string\<close>, one \<^typ>\<open>char\<close> standing for one character of the Python string; a
  dictionary is an association list with distinct keys, a dictionary literal in the
  order in which the source writes its keys; \<open>JNull\<close> is \<^verbatim>\<open>None\<close>; numbers are integers.
\<close>

datatype json =
    JNull
  | JBool bool
  | JInt int
  | JStr string
  | JList "json list"
  | JDict "(string \<times> json) list"

text \<open>
  The two conversation logs, as the methods receive them and as the envelopes carry
  them, have the element type that the source annotates, \<^verbatim>\<open>Dict[str, str | Dict]\<close>: a
  dictionary whose values are strings or dictionaries. \<open>json_of_entry\<close> is such an entry
  as the Python value it is.
\<close>

datatype field_value = VStr string | VDict "(string \<times> json) list"

type_synonym entry = "(string \<times> field_value) list"

definition json_of_value :: "field_value \<Rightarrow> json" where
  "json_of_value v = (case v of VStr s \<Rightarrow> JStr s | VDict d \<Rightarrow> JDict d)"

definition json_of_entry :: "entry \<Rightarrow> json" where
  "json_of_entry e = JDict (map (\<lambda>(k, v). (k, json_of_value v)) e)"

text \<open>Exceptions that can leave the functions modelled here.\<close>

datatype py_error = ConnectionError | AttributeError | TypeError | ValidationError

text \<open>
  \<^verbatim>\<open>requests.Response\<close>, as far as \<^verbatim>\<open>exec_api\<close> reads it. \<open>json_body\<close> is the value of
  \<^verbatim>\<open>response.json()\<close>, any JSON value, and \<open>None\<close> when that call raises
  \<^verbatim>\<open>JSONDecodeError\<close>.
\<close>

record http_response =
  status_code :: int
  reason :: string
  json_body :: "json option"

text \<open>The attributes that \<^verbatim>\<open>BaseChatApp.setup_endpoint\<close> and \<^verbatim>\<open>setup_deployment\<close> store.\<close>

record chat_app =
  endpoint_url :: string
  endpoint_key :: string
  deployment_name :: string
  protocol :: string
  host :: string
  path :: string

text \<open>
  \<^verbatim>\<open>requests.post(url, json=payload, headers=headers)\<close>: the network and the remote
  endpoint. It either raises (no response was received) or returns a response.
\<close>

type_synonym transport = "string \<Rightarrow> json \<Rightarrow> (string \<times> string) list \<Rightarrow> py_error + http_response"

section \<open>Python operations on these values\<close>

text \<open>The truth value of a Python object, as \<^verbatim>\<open>or\<close> tests it.\<close>

fun py_truthy :: "json \<Rightarrow> bool" where
  "py_truthy JNull = False"
| "py_truthy (JBool b) = b"
| "py_truthy (JInt i) = (i \<noteq> 0)"
| "py_truthy (JStr s) = (s \<noteq> [])"
| "py_truthy (JList xs) = (xs \<noteq> [])"
| "py_truthy (JDict kvs) = (kvs \<noteq> [])"

text \<open>\<^verbatim>\<open>dict.get(key, default)\<close>.\<close>

definition dict_get :: "(string \<times> 'v) list \<Rightarrow> string \<Rightarrow> 'v \<Rightarrow> 'v" where
  "dict_get d k dflt = (case map_of d k of Some v \<Rightarrow> v | None \<Rightarrow> dflt)"

text \<open>
  \<^verbatim>\<open>obj.get(key, default)\<close> on any object: only a dictionary has the method, every other
  value (also \<^verbatim>\<open>None\<close>, a list and a string) raises \<^verbatim>\<open>AttributeError\<close>.
\<close>

fun py_get :: "json \<Rightarrow> string \<Rightarrow> json \<Rightarrow> py_error + json" where
  "py_get (JDict kvs) k dflt = Inr (dict_get kvs k dflt)"
| "py_get _ k dflt = Inl AttributeError"

text \<open>
  The items that \<^verbatim>\<open>for message in obj\<close> visits: the characters of a string, each a string
  of length one, the elements of a list, the keys of a dictionary; any other value is
  not iterable.
\<close>

fun py_iter :: "json \<Rightarrow> py_error + json list" where
  "py_iter (JStr s) = Inr (map (\<lambda>c. JStr [c]) s)"
| "py_iter (JList xs) = Inr xs"
| "py_iter (JDict kvs) = Inr (map (\<lambda>(k, v). JStr k) kvs)"
| "py_iter _ = Inl TypeError"

text \<open>\<^verbatim>\<open>content += value\<close> for a string \<^verbatim>\<open>content\<close>: only a string can be appended.\<close>

fun py_concat :: "string \<Rightarrow> json \<Rightarrow> py_error + string" where
  "py_concat content (JStr s) = Inr (content @ s)"
| "py_concat content _ = Inl TypeError"

section \<open>The envelopes: \<^verbatim>\<open>AISimpleResponse\<close> and \<^verbatim>\<open>AICustomResponse\<close>\<close>

text \<open>
  The two pydantic models of \<^verbatim>\<open>src/chat.py\<close>. In the source they are independent classes
  whose first three fields coincide; here the second extends the first, and the two
  record types stay distinct.
\<close>

record AISimpleResponse =
  bot_message :: string
  chat_history :: "entry list"
  chat_history_for_ml :: "entry list"

record AICustomResponse = AISimpleResponse +
  call_history :: string
  call_log_md_display :: string
  call_count :: int

text \<open>What the audit variant's generator can yield: it constructs both classes.\<close>

datatype envelope = Simple AISimpleResponse | Custom AICustomResponse

text \<open>
  Constructing a model validates the arguments against the field types (pydantic 2, which
  does not turn a number into a string). For \<^verbatim>\<open>List[Dict[str, str | Dict]]\<close> every element
  has to be a dictionary and every value in it a string or a dictionary; otherwise the
  constructor raises \<^verbatim>\<open>ValidationError\<close>.
\<close>

fun validate_value :: "json \<Rightarrow> field_value option" where
  "validate_value (JStr s) = Some (VStr s)"
| "validate_value (JDict d) = Some (VDict d)"
| "validate_value _ = None"

fun validate_fields :: "(string \<times> json) list \<Rightarrow> entry option" where
  "validate_fields [] = Some []"
| "validate_fields ((k, v) # kvs) =
     (case validate_value v of
        None \<Rightarrow> None
      | Some v' \<Rightarrow> (case validate_fields kvs of None \<Rightarrow> None | Some e \<Rightarrow> Some ((k, v') # e)))"

fun validate_entry :: "json \<Rightarrow> entry option" where
  "validate_entry (JDict kvs) = validate_fields kvs"
| "validate_entry _ = None"

fun validate_history :: "json list \<Rightarrow> entry list option" where
  "validate_history [] = Some []"
| "validate_history (x # xs) =
     (case validate_entry x of
        None \<Rightarrow> None
      | Some e \<Rightarrow> (case validate_history xs of None \<Rightarrow> None | Some es \<Rightarrow> Some (e # es)))"

text \<open>
  \<^verbatim>\<open>AISimpleResponse(bot_message=..., chat_history=..., chat_history_for_ml=...)\<close> and
  \<^verbatim>\<open>AICustomResponse(...)\<close>, which has three more fields of type \<^verbatim>\<open>str\<close>, \<^verbatim>\<open>str\<close> and
  \<^verbatim>\<open>int\<close>.
\<close>

definition new_AISimpleResponse :: "string \<Rightarrow> json list \<Rightarrow> json list \<Rightarrow> py_error + AISimpleResponse" where
  "new_AISimpleResponse message history history_for_ml =
     (case validate_history history of
        None \<Rightarrow> Inl ValidationError
      | Some display \<Rightarrow>
          (case validate_history history_for_ml of
             None \<Rightarrow> Inl ValidationError
           | Some ml \<Rightarrow>
               Inr \<lparr>bot_message = message, chat_history = display, chat_history_for_ml = ml\<rparr>))"

definition new_AICustomResponse ::
  "string \<Rightarrow> json list \<Rightarrow> json list \<Rightarrow> string \<Rightarrow> string \<Rightarrow> int \<Rightarrow> py_error + AICustomResponse" where
  "new_AICustomResponse message history history_for_ml log doc count =
     (case validate_history history of
        None \<Rightarrow> Inl ValidationError
      | Some display \<Rightarrow>
          (case validate_history history_for_ml of
             None \<Rightarrow> Inl ValidationError
           | Some ml \<Rightarrow>
               Inr \<lparr>bot_message = message, chat_history = display, chat_history_for_ml = ml,
                    call_history = log, call_log_md_display = doc, call_count = count\<rparr>))"

section \<open>The endpoint caller: \<^verbatim>\<open>BaseChatApp.exec_api\<close>\<close>

text \<open>
  \<^verbatim>\<open>Response.raise_for_status\<close> raises \<^verbatim>\<open>HTTPError\<close> exactly for the 4xx and 5xx codes.
\<close>

definition raise_for_status :: "http_response \<Rightarrow> bool" where
  "raise_for_status response \<longleftrightarrow> 400 \<le> status_code response \<and> status_code response < 600"

text \<open>
  The value \<^verbatim>\<open>exec_api\<close> returns: \<^verbatim>\<open>None\<close> from the \<^verbatim>\<open>except requests.HTTPError\<close> branch,
  otherwise a 3-tuple of the decoded body, the status code and the reason, which is
  \<^verbatim>\<open>(None, None, None)\<close> when the body does not decode.
\<close>

datatype api_result =
    ApiNone
  | ApiTuple json "int option" "string option"

text \<open>Python truth value: \<^verbatim>\<open>None\<close> is false, a tuple of three elements is true.\<close>

fun truthy :: "api_result \<Rightarrow> bool" where
  "truthy ApiNone = False"
| "truthy (ApiTuple _ _ _) = True"

definition exec_api :: "chat_app \<Rightarrow> transport \<Rightarrow> string \<Rightarrow> json list \<Rightarrow> py_error + api_result" where
  "exec_api self post msg history_for_ml =
     (let payload = JDict [(''question'', JStr msg), (''chat_history'', JList history_for_ml)];
          headers = [(''Content-Type'', ''application/json''),
                     (''Authorization'', ''Bearer '' @ endpoint_key self),
                     (''azureml-model-deployment'', deployment_name self),
                     (''Accept'', ''application/json'')]
      in case post (endpoint_url self) payload headers of
           Inl e \<Rightarrow> Inl e
         | Inr response \<Rightarrow>
             if raise_for_status response then Inr ApiNone
             else (case json_body response of
                     Some body \<Rightarrow>
                       Inr (ApiTuple body (Some (status_code response)) (Some (reason response)))
                   | None \<Rightarrow> Inr (ApiTuple JNull None None)))"

section \<open>Atomic mode: \<^verbatim>\<open>ChatApp.respond_simple\<close> of \<^verbatim>\<open>LV1_nonstreaming_ui.py\<close>\<close>

text \<open>
  The method is given the two logs as Python lists and appends to them in place. The
  model takes the logs at their annotated type, returns what the call returns or
  raises, and with it the two Python lists as they are when the call ends. The returned
  value is an optional envelope: a bare \<^verbatim>\<open>return\<close> returns \<^verbatim>\<open>None\<close>.
\<close>

definition respond_simple ::
  "chat_app \<Rightarrow> transport \<Rightarrow> string \<Rightarrow> entry list \<Rightarrow> entry list \<Rightarrow>
     (py_error + AISimpleResponse option) \<times> json list \<times> json list" where
  "respond_simple self post msg history history_for_ml =
     (let chat_hist = map json_of_entry history;
          chat_hist_ml = map json_of_entry history_for_ml
      in case exec_api self post msg chat_hist_ml of
           Inl e \<Rightarrow> (Inl e, chat_hist, chat_hist_ml)
         | Inr result \<Rightarrow>
             if \<not> truthy result then (Inr None, chat_hist, chat_hist_ml)
             else (case result of
                     ApiNone \<Rightarrow> (Inl TypeError, chat_hist, chat_hist_ml)
                   | ApiTuple res_json _ _ \<Rightarrow>
                       (case py_get res_json ''answer'' (JStr ''<EMPTY>'') of
                          Inl e \<Rightarrow> (Inl e, chat_hist, chat_hist_ml)
                        | Inr answer \<Rightarrow>
                            (let chat_hist' =
                                   (chat_hist @ [JDict [(''role'', JStr ''user''),
                                                        (''content'', JStr msg)]])
                                   @ [JDict [(''role'', JStr ''assistant''),
                                             (''content'', answer)]];
                                 chat_hist_ml' =
                                   chat_hist_ml
                                   @ [JDict [(''inputs'', JDict [(''question'', JStr msg)]),
                                             (''outputs'', answer)]]
                             in case new_AISimpleResponse '''' chat_hist' chat_hist_ml' of
                                  Inl e \<Rightarrow> (Inl e, chat_hist', chat_hist_ml')
                                | Inr response \<Rightarrow>
                                    (Inr (Some response), chat_hist', chat_hist_ml')))))"

section \<open>Streaming mode: \<^verbatim>\<open>ChatApp.respond_stream\<close> of \<^verbatim>\<open>LV2_streaming_ui.py\<close>\<close>

text \<open>
  A generator run to its end is the list of the envelopes it yields, in order and each as
  it is when it is yielded, and the exception that ends it, if one does.

  The reveal loop \<^verbatim>\<open>for message in bot_message\<close>, over the items still to visit:
  \<open>content\<close> is \<^verbatim>\<open>response["content"]\<close> before the iteration. \<^verbatim>\<open>chat_history[:-1]\<close> is
  \<^const>\<open>butlast\<close>, also on the empty list.
\<close>

fun reveal ::
  "string \<Rightarrow> json list \<Rightarrow> json list \<Rightarrow> json list \<Rightarrow> AISimpleResponse list \<times> py_error option" where
  "reveal content [] chat_hist chat_hist_ml = ([], None)"
| "reveal content (message # rest) chat_hist chat_hist_ml =
     (case py_concat content (if py_truthy message then message else JStr '''') of
        Inl e \<Rightarrow> ([], Some e)
      | Inr content' \<Rightarrow>
          (case new_AISimpleResponse ''''
                  (butlast chat_hist
                   @ [JDict [(''role'', JStr ''assistant''), (''content'', JStr content')]])
                  chat_hist_ml of
             Inl e \<Rightarrow> ([], Some e)
           | Inr response \<Rightarrow>
               (case reveal content' rest chat_hist chat_hist_ml of
                  (responses, raised) \<Rightarrow> (response # responses, raised))))"

definition respond_stream ::
  "chat_app \<Rightarrow> transport \<Rightarrow> string \<Rightarrow> entry list \<Rightarrow> entry list \<Rightarrow>
     (AISimpleResponse list \<times> py_error option) \<times> json list \<times> json list" where
  "respond_stream self post msg history history_for_ml =
     (let chat_hist = map json_of_entry history;
          chat_hist_ml = map json_of_entry history_for_ml
      in case exec_api self post msg chat_hist_ml of
           Inl e \<Rightarrow> (([], Some e), chat_hist, chat_hist_ml)
         | Inr result \<Rightarrow>
             if \<not> truthy result
             then (case new_AISimpleResponse '''' chat_hist chat_hist_ml of
                     Inl e \<Rightarrow> (([], Some e), chat_hist, chat_hist_ml)
                   | Inr response \<Rightarrow> (([response], None), chat_hist, chat_hist_ml))
             else (case result of
                     ApiNone \<Rightarrow> (([], Some TypeError), chat_hist, chat_hist_ml)
                   | ApiTuple res_json _ _ \<Rightarrow>
                       (case py_get res_json ''answer'' (JStr ''<EMPTY>'') of
                          Inl e \<Rightarrow> (([], Some e), chat_hist, chat_hist_ml)
                        | Inr answer \<Rightarrow>
                            (let chat_hist' =
                                   (chat_hist @ [JDict [(''role'', JStr ''user''),
                                                        (''content'', JStr msg)]])
                                   @ [JDict [(''role'', JStr ''assistant''),
                                             (''content'', answer)]];
                                 chat_hist_ml' =
                                   chat_hist_ml
                                   @ [JDict [(''inputs'', JDict [(''question'', JStr msg)]),
                                             (''outputs'', answer)]]
                             in case py_iter answer of
                                  Inl e \<Rightarrow> (([], Some e), chat_hist', chat_hist_ml')
                                | Inr items \<Rightarrow>
                                    (reveal '''' items chat_hist' chat_hist_ml',
                                     chat_hist', chat_hist_ml')))))"

section \<open>The call log recorder: \<^verbatim>\<open>src/utils.py\<close>\<close>

subsection \<open>\<^verbatim>\<open>str(int)\<close> and \<^verbatim>\<open>json.dumps(obj, indent=4, ensure_ascii=False)\<close>\<close>

text \<open>
  The two library functions that the formatted entry is built with. \<open>str_int\<close> is the
  decimal form an f-string gives an \<^verbatim>\<open>int\<close>. \<open>json_dumps\<close> follows the encoder of the
  standard library for the values of \<^typ>\<open>json\<close>: with an indent the separators are
  \<^verbatim>\<open>","\<close> and \<^verbatim>\<open>": "\<close>, an empty container is \<^verbatim>\<open>[]\<close> or \<^verbatim>\<open>{}\<close>, and without
  \<^verbatim>\<open>ensure_ascii\<close> only the quote, the backslash and the control characters below
  \<^verbatim>\<open>0x20\<close> are escaped.
\<close>

definition digit_char :: "nat \<Rightarrow> char" where
  "digit_char d = ''0123456789abcdef'' ! d"

function str_nat :: "nat \<Rightarrow> string" where
  "str_nat n = (if n < 10 then [digit_char n] else str_nat (n div 10) @ [digit_char (n mod 10)])"
  by pat_completeness auto
termination
  by (relation "measure id") auto

definition str_int :: "int \<Rightarrow> string" where
  "str_int i = (if i < 0 then CHR ''-'' # str_nat (nat (- i)) else str_nat (nat i))"

definition escape_char :: "char \<Rightarrow> string" where
  "escape_char c =
     (if c = CHR 0x5C then [CHR 0x5C, CHR 0x5C]
      else if c = CHR 0x22 then [CHR 0x5C, CHR 0x22]
      else if c = CHR 0x08 then [CHR 0x5C, CHR ''b'']
      else if c = CHR 0x0C then [CHR 0x5C, CHR ''f'']
      else if c = CHR 0x0A then [CHR 0x5C, CHR ''n'']
      else if c = CHR 0x0D then [CHR 0x5C, CHR ''r'']
      else if c = CHR 0x09 then [CHR 0x5C, CHR ''t'']
      else if (of_char c :: nat) < 32
        then [CHR 0x5C, CHR ''u'', CHR ''0'', CHR ''0'',
              digit_char (of_char c div 16), digit_char (of_char c mod 16)]
      else [c])"

definition encode_basestring :: "string \<Rightarrow> string" where
  "encode_basestring s = [CHR 0x22] @ concat (map escape_char s) @ [CHR 0x22]"

fun join :: "string \<Rightarrow> string list \<Rightarrow> string" where
  "join sep [] = []"
| "join sep [x] = x"
| "join sep (x # y # ys) = x @ sep @ join sep (y # ys)"

definition newline_indent :: "nat \<Rightarrow> string" where
  "newline_indent level = CHR 0x0A # replicate (4 * level) CHR '' ''"

fun iterencode :: "nat \<Rightarrow> json \<Rightarrow> string" where
  "iterencode level JNull = ''null''"
| "iterencode level (JBool b) = (if b then ''true'' else ''false'')"
| "iterencode level (JInt i) = str_int i"
| "iterencode level (JStr s) = encode_basestring s"
| "iterencode level (JList xs) =
     (if xs = [] then ''[]''
      else ''['' @ newline_indent (Suc level)
           @ join ('','' @ newline_indent (Suc level)) (map (iterencode (Suc level)) xs)
           @ newline_indent level @ '']'')"
| "iterencode level (JDict kvs) =
     (if kvs = [] then ''{}''
      else ''{'' @ newline_indent (Suc level)
           @ join ('','' @ newline_indent (Suc level))
               (map (\<lambda>(k, v). encode_basestring k @ '': '' @ iterencode (Suc level) v) kvs)
           @ newline_indent level @ ''}'')"

definition json_dumps :: "json \<Rightarrow> string" where
  "json_dumps obj = iterencode 0 obj"

text \<open>An f-string field holding \<^verbatim>\<open>None\<close> is rendered as the text \<^verbatim>\<open>None\<close>.\<close>

definition format_int :: "int option \<Rightarrow> string" where
  "format_int v = (case v of None \<Rightarrow> ''None'' | Some i \<Rightarrow> str_int i)"

definition format_str :: "string option \<Rightarrow> string" where
  "format_str v = (case v of None \<Rightarrow> ''None'' | Some s \<Rightarrow> s)"

subsection \<open>\<^verbatim>\<open>create_http_log\<close> and \<^verbatim>\<open>format_http_log\<close>\<close>

definition create_http_log ::
  "int \<Rightarrow> chat_app \<Rightarrow> json \<Rightarrow> json \<Rightarrow> int option \<Rightarrow> string option \<Rightarrow> string" where
  \<open>create_http_log count cls jinput joutput res_status_code res_status_reason =
     ''\<newline>'' @
     ''<span style="color: orange;">#'' @ str_int count @ '' API Request</span>\<newline>'' @
     ''<pre class="language-http" tabindex="0">\<newline>'' @
     ''<span class="token request-line"><span class="token method property">POST </span><span class="token request-target url">''
       @ path cls @ '' </span><span class="token http-version property">''
       @ protocol cls @ ''</span></span>\<newline>'' @
     ''<span class="token header"><span class="token header-name keyword">Host</span><span class="token punctuation">: </span><span class="token header-value">''
       @ host cls @ ''</span></span>\<newline>'' @
     ''<span class="token header"><span class="token header-name keyword">Accept</span><span class="token punctuation">: </span><span class="token header-value">application/json</span></span>\<newline>'' @
     ''<span class="token header"><span class="token header-name keyword">Authorization</span><span class="token punctuation">: </span><span class="token header-value">Bearer &lt; MASKED_APIKey &gt;</span></span>\<newline>'' @
     ''<span class="token header"><span class="token header-name keyword">azureml-model-deployment</span><span class="token punctuation">: </span><span class="token header-value">''
       @ deployment_name cls @ ''</span></span>\<newline>'' @
     ''<span class="token header"><span class="token header-name keyword">Content-Type</span><span class="token punctuation">: </span><span class="token header-value">application/json</span></span>\<newline>'' @
     ''\<newline>'' @
     json_dumps jinput @ ''\<newline>'' @
     ''</pre>\<newline>'' @
     ''\<newline>'' @
     ''<span style="color: orange;">#'' @ str_int count @ '' Response</span>\<newline>'' @
     ''<pre class="language-http" tabindex="0">\<newline>'' @
     ''<span class="token response-status"><span class="token http-version property">HTTP/1.1 </span><span class="token status-code number">''
       @ format_int res_status_code @ '' </span><span class="token reason-phrase string">''
       @ format_str res_status_reason @ ''</span></span>\<newline>'' @
     ''<span class="token header"><span class="token header-name keyword">Content-Type</span><span class="token punctuation">: </span><span class="token header-value">application/json</span></span>\<newline>'' @
     ''\<newline>'' @
     json_dumps joutput @ ''\<newline>'' @
     ''</pre>\<newline>'' @
     ''<hr>\<newline>'' @
     ''    ''\<close>

definition format_http_log :: "string \<Rightarrow> string" where
  \<open>format_http_log history =
     ''\<newline>'' @
     ''<head>\<newline>'' @
     ''    <!-- Prism.js -->\<newline>'' @
     ''    <link rel="stylesheet" href="https://cdnjs.cloudflare.com/ajax/libs/prism/1.29.0/themes/prism-tomorrow.min.css">\<newline>'' @
     ''    <script src="https://cdnjs.cloudflare.com/ajax/libs/prism/1.29.0/components/prism-core.min.js"></script>\<newline>'' @
     ''    <!-- Prism.js additional Plugin -->\<newline>'' @
     ''    <script src="https://cdnjs.cloudflare.com/ajax/libs/prism/1.29.0/plugins/autoloader/prism-autoloader.min.js"></script>\<newline>'' @
     ''    <script src="https://cdnjs.cloudflare.com/ajax/libs/prism/1.29.0/plugins/normalize-whitespace/prism-normalize-whitespace.min.js"></script>\<newline>'' @
     ''</head>\<newline>'' @
     ''\<newline>'' @
     ''<body>\<newline>'' @
     ''    '' @ history @ ''\<newline>'' @
     ''</body>\<newline>'' @
     ''        ''\<close>

section \<open>Streaming with the call log: \<^verbatim>\<open>ChatApp.respond_stream\<close> of \<^verbatim>\<open>LV3_realtime_httplog_streaming_ui.py\<close>\<close>

text \<open>The reveal loop of this variant; the three audit values are those computed before it.\<close>

fun reveal_httplog ::
  "string \<Rightarrow> json list \<Rightarrow> json list \<Rightarrow> json list \<Rightarrow> string \<Rightarrow> string \<Rightarrow> int \<Rightarrow>
     envelope list \<times> py_error option" where
  "reveal_httplog content [] chat_hist chat_hist_ml log doc count = ([], None)"
| "reveal_httplog content (message # rest) chat_hist chat_hist_ml log doc count =
     (case py_concat content (if py_truthy message then message else JStr '''') of
        Inl e \<Rightarrow> ([], Some e)
      | Inr content' \<Rightarrow>
          (case new_AICustomResponse ''''
                  (butlast chat_hist
                   @ [JDict [(''role'', JStr ''assistant''), (''content'', JStr content')]])
                  chat_hist_ml log doc count of
             Inl e \<Rightarrow> ([], Some e)
           | Inr response \<Rightarrow>
               (case reveal_httplog content' rest chat_hist chat_hist_ml log doc count of
                  (responses, raised) \<Rightarrow> (Custom response # responses, raised))))"

text \<open>
  The parameters \<open>log\<close>, \<open>doc\<close> and \<open>count\<close> are the source's \<^verbatim>\<open>call_history\<close>,
  \<^verbatim>\<open>call_log_md_display\<close> and \<^verbatim>\<open>call_count\<close>. The source rebinds them locally (strings and
  integers are immutable), so the caller sees the new values only in the envelopes.
\<close>

definition respond_stream_httplog ::
  "chat_app \<Rightarrow> transport \<Rightarrow> string \<Rightarrow> entry list \<Rightarrow> entry list \<Rightarrow> string \<Rightarrow> string \<Rightarrow> int \<Rightarrow>
     (envelope list \<times> py_error option) \<times> json list \<times> json list" where
  "respond_stream_httplog self post msg history history_for_ml log doc count =
     (let chat_hist = map json_of_entry history;
          chat_hist_ml = map json_of_entry history_for_ml
      in case exec_api self post msg chat_hist_ml of
           Inl e \<Rightarrow> (([], Some e), chat_hist, chat_hist_ml)
         | Inr result \<Rightarrow>
             if \<not> truthy result
             then (case new_AISimpleResponse '''' chat_hist chat_hist_ml of
                     Inl e \<Rightarrow> (([], Some e), chat_hist, chat_hist_ml)
                   | Inr response \<Rightarrow> (([Simple response], None), chat_hist, chat_hist_ml))
             else (case result of
                     ApiNone \<Rightarrow> (([], Some TypeError), chat_hist, chat_hist_ml)
                   | ApiTuple res_json res_status_code res_status_reason \<Rightarrow>
                       (let payload = JDict [(''question'', JStr msg),
                                             (''chat_history'', JList chat_hist_ml)];
                            count' = count + 1;
                            log' = log @ create_http_log count' self payload res_json
                                           res_status_code res_status_reason;
                            doc' = format_http_log log'
                        in case py_get res_json ''answer'' (JStr ''<EMPTY>'') of
                             Inl e \<Rightarrow> (([], Some e), chat_hist, chat_hist_ml)
                           | Inr answer \<Rightarrow>
                               (let chat_hist' =
                                      (chat_hist @ [JDict [(''role'', JStr ''user''),
                                                           (''content'', JStr msg)]])
                                      @ [JDict [(''role'', JStr ''assistant''),
                                                (''content'', answer)]];
                                    chat_hist_ml' =
                                      chat_hist_ml
                                      @ [JDict [(''inputs'', JDict [(''question'', JStr msg)]),
                                                (''outputs'', answer)]]
                                in case py_iter answer of
                                     Inl e \<Rightarrow> (([], Some e), chat_hist', chat_hist_ml')
                                   | Inr items \<Rightarrow>
                                       (reveal_httplog '''' items chat_hist' chat_hist_ml'
                                          log' doc' count',
                                        chat_hist', chat_hist_ml')))))"

section \<open>Vocabulary of the statements\<close>

text \<open>
  The request that \<^const>\<open>exec_api\<close> sends and the answer of the network to it: the
  argument of the \<open>case\<close> in its definition.
\<close>

definition post_request :: "chat_app \<Rightarrow> transport \<Rightarrow> string \<Rightarrow> json list \<Rightarrow> py_error + http_response" where
  "post_request self post msg history_for_ml =
     post (endpoint_url self)
       (JDict [(''question'', JStr msg), (''chat_history'', JList history_for_ml)])
       [(''Content-Type'', ''application/json''),
        (''Authorization'', ''Bearer '' @ endpoint_key self),
        (''azureml-model-deployment'', deployment_name self),
        (''Accept'', ''application/json'')]"

text \<open>Concrete inputs: an application object, some responses and the endpoints giving them.\<close>

definition demo_app :: chat_app where
  "demo_app = \<lparr>endpoint_url = ''https://demo.example.net/score'',
               endpoint_key = ''s3cr3t'',
               deployment_name = ''blue'',
               protocol = ''https'',
               host = ''demo.example.net'',
               path = ''/score''\<rparr>"

definition response_ok :: http_response where
  "response_ok =
     \<lparr>status_code = 200, reason = ''OK'', json_body = Some (JDict [(''answer'', JStr ''ok'')])\<rparr>"

definition response_empty_answer :: http_response where
  "response_empty_answer =
     \<lparr>status_code = 200, reason = ''OK'', json_body = Some (JDict [(''answer'', JStr [])])\<rparr>"

definition response_no_answer :: http_response where
  "response_no_answer = \<lparr>status_code = 200, reason = ''OK'', json_body = Some (JDict [])\<rparr>"

definition response_list_body :: http_response where
  "response_list_body = \<lparr>status_code = 200, reason = ''OK'', json_body = Some (JList [])\<rparr>"

definition response_500 :: http_response where
  "response_500 =
     \<lparr>status_code = 500, reason = ''Internal Server Error'', json_body = None\<rparr>"

definition response_undecodable :: http_response where
  "response_undecodable = \<lparr>status_code = 200, reason = ''OK'', json_body = None\<rparr>"

definition post_ok :: transport where
  "post_ok url payload headers = Inr response_ok"

definition post_empty_answer :: transport where
  "post_empty_answer url payload headers = Inr response_empty_answer"

definition post_no_answer :: transport where
  "post_no_answer url payload headers = Inr response_no_answer"

definition post_list_body :: transport where
  "post_list_body url payload headers = Inr response_list_body"

definition post_500 :: transport where
  "post_500 url payload headers = Inr response_500"

definition post_undecodable :: transport where
  "post_undecodable url payload headers = Inr response_undecodable"

section \<open>The three outcomes of the endpoint caller\<close>

lemma exec_api_post_request:
  "exec_api self post msg history_for_ml =
     (case post_request self post msg history_for_ml of
        Inl e \<Rightarrow> Inl e
      | Inr response \<Rightarrow>
          if raise_for_status response then Inr ApiNone
          else (case json_body response of
                  Some body \<Rightarrow>
                    Inr (ApiTuple body (Some (status_code response)) (Some (reason response)))
                | None \<Rightarrow> Inr (ApiTuple JNull None None)))"
  by (simp add: exec_api_def post_request_def)

lemma exec_api_http_error:
  assumes "post_request self post msg history_for_ml = Inr response"
    and "raise_for_status response"
  shows "exec_api self post msg history_for_ml = Inr ApiNone"
  using assms by (simp add: exec_api_post_request)

lemma exec_api_decode_error:
  assumes "post_request self post msg history_for_ml = Inr response"
    and "\<not> raise_for_status response"
    and "json_body response = None"
  shows "exec_api self post msg history_for_ml = Inr (ApiTuple JNull None None)"
  using assms by (simp add: exec_api_post_request)

lemma exec_api_success:
  assumes "post_request self post msg history_for_ml = Inr response"
    and "\<not> raise_for_status response"
    and "json_body response = Some body"
  shows "exec_api self post msg history_for_ml =
           Inr (ApiTuple body (Some (status_code response)) (Some (reason response)))"
  using assms by (simp add: exec_api_post_request)

section \<open>Validation of lists of the annotated type\<close>

lemma validate_value_json: "validate_value (json_of_value v) = Some v"
  by (cases v) (simp_all add: json_of_value_def)

lemma validate_fields_json: "validate_fields (map (\<lambda>(k, v). (k, json_of_value v)) e) = Some e"
  by (induction e) (auto simp add: validate_value_json)

lemma validate_entry_json: "validate_entry (json_of_entry e) = Some e"
  by (simp add: json_of_entry_def validate_fields_json)

lemma validate_history_json: "validate_history (map json_of_entry h) = Some h"
  by (induction h) (simp_all add: validate_entry_json)

lemma validate_history_append:
  "validate_history xs = Some a \<Longrightarrow> validate_history ys = Some b \<Longrightarrow>
   validate_history (xs @ ys) = Some (a @ b)"
  by (induction xs arbitrary: a) (auto split: option.splits)

lemma validate_assistant:
  assumes "validate_history (butlast h) = Some tb"
  shows "validate_history
           (butlast h @ [JDict [(''role'', JStr ''assistant''), (''content'', JStr x)]])
         = Some (tb @ [[(''role'', VStr ''assistant''), (''content'', VStr x)]])"
  by (rule validate_history_append [OF assms]) simp

lemma new_AISimpleResponse_json:
  "new_AISimpleResponse message (map json_of_entry h) (map json_of_entry m)
     = Inr \<lparr>bot_message = message, chat_history = h, chat_history_for_ml = m\<rparr>"
  by (simp add: new_AISimpleResponse_def validate_history_json)

section \<open>The reveal loops on the characters of a string\<close>

lemma reveal_char_step:
  assumes "validate_history (butlast h) = Some tb" and "validate_history m = Some tm"
  shows "reveal content (JStr [c] # rest) h m =
           (case reveal (content @ [c]) rest h m of
              (responses, raised) \<Rightarrow>
                (\<lparr>bot_message = '''',
                  chat_history =
                    tb @ [[(''role'', VStr ''assistant''), (''content'', VStr (content @ [c]))]],
                  chat_history_for_ml = tm\<rparr> # responses, raised))"
  by (simp add: new_AISimpleResponse_def validate_assistant [OF assms(1)] assms(2))

lemma reveal_string:
  assumes "validate_history (butlast h) = Some tb" and "validate_history m = Some tm"
  shows "snd (reveal content (map (\<lambda>c. JStr [c]) answer) h m) = None
       \<and> length (fst (reveal content (map (\<lambda>c. JStr [c]) answer) h m)) = length answer"
proof (induction answer arbitrary: content)
  case Nil
  show ?case by simp
next
  case (Cons c cs)
  from Cons.IH [of "content @ [c]"] show ?case
    by (simp add: reveal_char_step [OF assms] split_beta del: reveal.simps)
qed

lemma reveal_string_nth:
  assumes "validate_history (butlast h) = Some tb" and "validate_history m = Some tm"
  shows "k < length answer \<Longrightarrow>
         fst (reveal content (map (\<lambda>c. JStr [c]) answer) h m) ! k =
           \<lparr>bot_message = '''',
            chat_history =
              tb @ [[(''role'', VStr ''assistant''),
                     (''content'', VStr (content @ take (Suc k) answer))]],
            chat_history_for_ml = tm\<rparr>"
proof (induction answer arbitrary: content k)
  case Nil
  then show ?case by simp
next
  case (Cons c cs)
  show ?case
  proof (cases k)
    case 0
    then show ?thesis
      by (simp add: reveal_char_step [OF assms] split_beta del: reveal.simps)
  next
    case (Suc j)
    with Cons.prems have "j < length cs" by simp
    from Cons.IH [OF this, of "content @ [c]"] Suc show ?thesis
      by (simp add: reveal_char_step [OF assms] split_beta del: reveal.simps)
  qed
qed

lemma reveal_httplog_char_step:
  assumes "validate_history (butlast h) = Some tb" and "validate_history m = Some tm"
  shows "reveal_httplog content (JStr [c] # rest) h m log doc count =
           (case reveal_httplog (content @ [c]) rest h m log doc count of
              (responses, raised) \<Rightarrow>
                (Custom \<lparr>bot_message = '''',
                         chat_history =
                           tb @ [[(''role'', VStr ''assistant''),
                                  (''content'', VStr (content @ [c]))]],
                         chat_history_for_ml = tm,
                         call_history = log, call_log_md_display = doc, call_count = count\<rparr>
                 # responses, raised))"
  by (simp add: new_AICustomResponse_def validate_assistant [OF assms(1)] assms(2))

lemma reveal_httplog_string:
  assumes "validate_history (butlast h) = Some tb" and "validate_history m = Some tm"
  shows "snd (reveal_httplog content (map (\<lambda>c. JStr [c]) answer) h m log doc count) = None
       \<and> length (fst (reveal_httplog content (map (\<lambda>c. JStr [c]) answer) h m log doc count))
           = length answer"
proof (induction answer arbitrary: content)
  case Nil
  show ?case by simp
next
  case (Cons c cs)
  from Cons.IH [of "content @ [c]"] show ?case
    by (simp add: reveal_httplog_char_step [OF assms] split_beta del: reveal_httplog.simps)
qed

lemma reveal_httplog_audit_values:
  "e \<in> set (fst (reveal_httplog content items h m log doc count)) \<Longrightarrow>
   \<exists>c. e = Custom c \<and> call_history c = log \<and> call_log_md_display c = doc
        \<and> call_count c = count"
  by (induction items arbitrary: content)
     (auto simp add: new_AICustomResponse_def split_beta split: sum.splits option.splits)

lemma reveal_ml_history:
  assumes "validate_history m = Some tm"
  shows "e \<in> set (fst (reveal content items h m)) \<Longrightarrow>
         bot_message e = '''' \<and> chat_history_for_ml e = tm"
  using assms
  by (induction items arbitrary: content)
     (auto simp add: new_AISimpleResponse_def split_beta split: sum.splits option.splits)

section \<open>The three variants on a successful call with a string answer\<close>

lemma display_log_json:
  "map json_of_entry history
     @ [JDict [(''role'', JStr ''user''), (''content'', JStr msg)],
        JDict [(''role'', JStr ''assistant''), (''content'', JStr answer)]]
   = map json_of_entry
       (history @ [[(''role'', VStr ''user''), (''content'', VStr msg)],
                   [(''role'', VStr ''assistant''), (''content'', VStr answer)]])"
  by (simp add: json_of_entry_def json_of_value_def)

lemma ml_log_json:
  "map json_of_entry history_for_ml
     @ [JDict [(''inputs'', JDict [(''question'', JStr msg)]), (''outputs'', JStr answer)]]
   = map json_of_entry
       (history_for_ml
        @ [[(''inputs'', VDict [(''question'', JStr msg)]), (''outputs'', VStr answer)]])"
  by (simp add: json_of_entry_def json_of_value_def)

lemma validate_display_prefix:
  "validate_history
     (butlast (map json_of_entry history
               @ [JDict [(''role'', JStr ''user''), (''content'', JStr msg)],
                  JDict [(''role'', JStr ''assistant''), (''content'', JStr answer)]]))
   = Some (history @ [[(''role'', VStr ''user''), (''content'', VStr msg)]])"
proof -
  have "butlast (map json_of_entry history
                 @ [JDict [(''role'', JStr ''user''), (''content'', JStr msg)],
                    JDict [(''role'', JStr ''assistant''), (''content'', JStr answer)]])
        = map json_of_entry (history @ [[(''role'', VStr ''user''), (''content'', VStr msg)]])"
    by (simp add: butlast_append json_of_entry_def json_of_value_def)
  then show ?thesis by (simp only: validate_history_json)
qed

lemma validate_ml_log:
  "validate_history
     (map json_of_entry history_for_ml
      @ [JDict [(''inputs'', JDict [(''question'', JStr msg)]), (''outputs'', JStr answer)]])
   = Some (history_for_ml
           @ [[(''inputs'', VDict [(''question'', JStr msg)]), (''outputs'', VStr answer)]])"
  by (simp only: ml_log_json validate_history_json)

lemma respond_simple_success:
  assumes "post_request self post msg (map json_of_entry history_for_ml) = Inr response"
    and "\<not> raise_for_status response"
    and "json_body response = Some (JDict body)"
    and "dict_get body ''answer'' (JStr ''<EMPTY>'') = JStr answer"
  shows "respond_simple self post msg history history_for_ml =
           (Inr (Some \<lparr>bot_message = '''',
                        chat_history =
                          history @ [[(''role'', VStr ''user''), (''content'', VStr msg)],
                                     [(''role'', VStr ''assistant''), (''content'', VStr answer)]],
                        chat_history_for_ml =
                          history_for_ml
                          @ [[(''inputs'', VDict [(''question'', JStr msg)]),
                              (''outputs'', VStr answer)]]\<rparr>),
            map json_of_entry history
              @ [JDict [(''role'', JStr ''user''), (''content'', JStr msg)],
                 JDict [(''role'', JStr ''assistant''), (''content'', JStr answer)]],
            map json_of_entry history_for_ml
              @ [JDict [(''inputs'', JDict [(''question'', JStr msg)]),
                        (''outputs'', JStr answer)]])"
proof -
  have built:
    "new_AISimpleResponse ''''
       (map json_of_entry history
          @ [JDict [(''role'', JStr ''user''), (''content'', JStr msg)],
             JDict [(''role'', JStr ''assistant''), (''content'', JStr answer)]])
       (map json_of_entry history_for_ml
          @ [JDict [(''inputs'', JDict [(''question'', JStr msg)]), (''outputs'', JStr answer)]])
     = Inr \<lparr>bot_message = '''',
            chat_history =
              history @ [[(''role'', VStr ''user''), (''content'', VStr msg)],
                         [(''role'', VStr ''assistant''), (''content'', VStr answer)]],
            chat_history_for_ml =
              history_for_ml
              @ [[(''inputs'', VDict [(''question'', JStr msg)]), (''outputs'', VStr answer)]]\<rparr>"
    by (simp only: display_log_json ml_log_json new_AISimpleResponse_json)
  show ?thesis
    by (simp add: respond_simple_def exec_api_success [OF assms(1-3)] assms(4) built)
qed

lemma respond_stream_success:
  assumes "post_request self post msg (map json_of_entry history_for_ml) = Inr response"
    and "\<not> raise_for_status response"
    and "json_body response = Some (JDict body)"
    and "dict_get body ''answer'' (JStr ''<EMPTY>'') = JStr answer"
  shows "respond_stream self post msg history history_for_ml =
           (reveal '''' (map (\<lambda>c. JStr [c]) answer)
              (map json_of_entry history
                 @ [JDict [(''role'', JStr ''user''), (''content'', JStr msg)],
                    JDict [(''role'', JStr ''assistant''), (''content'', JStr answer)]])
              (map json_of_entry history_for_ml
                 @ [JDict [(''inputs'', JDict [(''question'', JStr msg)]),
                           (''outputs'', JStr answer)]]),
            map json_of_entry history
              @ [JDict [(''role'', JStr ''user''), (''content'', JStr msg)],
                 JDict [(''role'', JStr ''assistant''), (''content'', JStr answer)]],
            map json_of_entry history_for_ml
              @ [JDict [(''inputs'', JDict [(''question'', JStr msg)]),
                        (''outputs'', JStr answer)]])"
  by (simp add: respond_stream_def exec_api_success [OF assms(1-3)] assms(4) Let_def)

lemma respond_stream_httplog_success:
  assumes "post_request self post msg (map json_of_entry history_for_ml) = Inr response"
    and "\<not> raise_for_status response"
    and "json_body response = Some (JDict body)"
    and "dict_get body ''answer'' (JStr ''<EMPTY>'') = JStr answer"
    and "entry = create_http_log (count + 1) self
                   (JDict [(''question'', JStr msg),
                           (''chat_history'', JList (map json_of_entry history_for_ml))])
                   (JDict body) (Some (status_code response)) (Some (reason response))"
  shows "respond_stream_httplog self post msg history history_for_ml log doc count =
           (reveal_httplog '''' (map (\<lambda>c. JStr [c]) answer)
              (map json_of_entry history
                 @ [JDict [(''role'', JStr ''user''), (''content'', JStr msg)],
                    JDict [(''role'', JStr ''assistant''), (''content'', JStr answer)]])
              (map json_of_entry history_for_ml
                 @ [JDict [(''inputs'', JDict [(''question'', JStr msg)]),
                           (''outputs'', JStr answer)]])
              (log @ entry) (format_http_log (log @ entry)) (count + 1),
            map json_of_entry history
              @ [JDict [(''role'', JStr ''user''), (''content'', JStr msg)],
                 JDict [(''role'', JStr ''assistant''), (''content'', JStr answer)]],
            map json_of_entry history_for_ml
              @ [JDict [(''inputs'', JDict [(''question'', JStr msg)]),
                        (''outputs'', JStr answer)]])"
  by (simp add: respond_stream_httplog_def exec_api_success [OF assms(1-3)] assms(4, 5) Let_def)

lemma reveal_after_append:
  "snd (reveal content (map (\<lambda>c. JStr [c]) answer)
          (map json_of_entry history
             @ [JDict [(''role'', JStr ''user''), (''content'', JStr msg)],
                JDict [(''role'', JStr ''assistant''), (''content'', JStr answer)]])
          (map json_of_entry history_for_ml
             @ [JDict [(''inputs'', JDict [(''question'', JStr msg)]),
                       (''outputs'', JStr answer)]])) = None
   \<and> length (fst (reveal content (map (\<lambda>c. JStr [c]) answer)
          (map json_of_entry history
             @ [JDict [(''role'', JStr ''user''), (''content'', JStr msg)],
                JDict [(''role'', JStr ''assistant''), (''content'', JStr answer)]])
          (map json_of_entry history_for_ml
             @ [JDict [(''inputs'', JDict [(''question'', JStr msg)]),
                       (''outputs'', JStr answer)]]))) = length answer"
  by (rule reveal_string [OF validate_display_prefix validate_ml_log])

lemma reveal_after_append_nth:
  "k < length answer \<Longrightarrow>
   fst (reveal content (map (\<lambda>c. JStr [c]) answer)
          (map json_of_entry history
             @ [JDict [(''role'', JStr ''user''), (''content'', JStr msg)],
                JDict [(''role'', JStr ''assistant''), (''content'', JStr answer)]])
          (map json_of_entry history_for_ml
             @ [JDict [(''inputs'', JDict [(''question'', JStr msg)]),
                       (''outputs'', JStr answer)]])) ! k
   = \<lparr>bot_message = [],
      chat_history =
        (history @ [[(''role'', VStr ''user''), (''content'', VStr msg)]])
        @ [[(''role'', VStr ''assistant''), (''content'', VStr (content @ take (Suc k) answer))]],
      chat_history_for_ml =
        history_for_ml
        @ [[(''inputs'', VDict [(''question'', JStr msg)]), (''outputs'', VStr answer)]]\<rparr>"
  by (rule reveal_string_nth [OF validate_display_prefix validate_ml_log])

lemma reveal_after_append_ml:
  "e \<in> set (fst (reveal content items h
                   (map json_of_entry history_for_ml
                      @ [JDict [(''inputs'', JDict [(''question'', JStr msg)]),
                                (''outputs'', JStr answer)]]))) \<Longrightarrow>
   bot_message e = []
   \<and> chat_history_for_ml e
       = history_for_ml
         @ [[(''inputs'', VDict [(''question'', JStr msg)]), (''outputs'', VStr answer)]]"
  by (rule reveal_ml_history [OF validate_ml_log])

lemma reveal_httplog_after_append:
  "snd (reveal_httplog content (map (\<lambda>c. JStr [c]) answer)
          (map json_of_entry history
             @ [JDict [(''role'', JStr ''user''), (''content'', JStr msg)],
                JDict [(''role'', JStr ''assistant''), (''content'', JStr answer)]])
          (map json_of_entry history_for_ml
             @ [JDict [(''inputs'', JDict [(''question'', JStr msg)]),
                       (''outputs'', JStr answer)]]) log doc count) = None
   \<and> length (fst (reveal_httplog content (map (\<lambda>c. JStr [c]) answer)
          (map json_of_entry history
             @ [JDict [(''role'', JStr ''user''), (''content'', JStr msg)],
                JDict [(''role'', JStr ''assistant''), (''content'', JStr answer)]])
          (map json_of_entry history_for_ml
             @ [JDict [(''inputs'', JDict [(''question'', JStr msg)]),
                       (''outputs'', JStr answer)]]) log doc count)) = length answer"
  by (rule reveal_httplog_string [OF validate_display_prefix validate_ml_log])

lemma respond_stream_run:
  assumes "post_request self post msg (map json_of_entry history_for_ml) = Inr response"
    and "\<not> raise_for_status response"
    and "json_body response = Some (JDict body)"
    and "dict_get body ''answer'' (JStr ''<EMPTY>'') = JStr answer"
  shows "\<exists>envs. respond_stream self post msg history history_for_ml
                   = ((envs, None),
                      map json_of_entry history
                        @ [JDict [(''role'', JStr ''user''), (''content'', JStr msg)],
                           JDict [(''role'', JStr ''assistant''), (''content'', JStr answer)]],
                      map json_of_entry history_for_ml
                        @ [JDict [(''inputs'', JDict [(''question'', JStr msg)]),
                                  (''outputs'', JStr answer)]])
           \<and> length envs = length answer
           \<and> (answer \<noteq> [] \<longrightarrow>
                chat_history (last envs)
                  = history
                    @ [[(''role'', VStr ''user''), (''content'', VStr msg)],
                       [(''role'', VStr ''assistant''), (''content'', VStr answer)]])"
proof -
  let ?run = "reveal [] (map (\<lambda>c. JStr [c]) answer)
                (map json_of_entry history
                   @ [JDict [(''role'', JStr ''user''), (''content'', JStr msg)],
                      JDict [(''role'', JStr ''assistant''), (''content'', JStr answer)]])
                (map json_of_entry history_for_ml
                   @ [JDict [(''inputs'', JDict [(''question'', JStr msg)]),
                             (''outputs'', JStr answer)]])"
  from reveal_after_append [of "[]" answer history msg history_for_ml]
  have none: "snd ?run = None" and len: "length (fst ?run) = length answer"
    by simp_all
  have run: "respond_stream self post msg history history_for_ml
          = ((fst ?run, None),
             map json_of_entry history
               @ [JDict [(''role'', JStr ''user''), (''content'', JStr msg)],
                  JDict [(''role'', JStr ''assistant''), (''content'', JStr answer)]],
             map json_of_entry history_for_ml
               @ [JDict [(''inputs'', JDict [(''question'', JStr msg)]),
                         (''outputs'', JStr answer)]])"
    unfolding respond_stream_success [OF assms] using none by (simp add: prod_eq_iff)
  have final: "chat_history (last (fst ?run))
                 = history
                   @ [[(''role'', VStr ''user''), (''content'', VStr msg)],
                      [(''role'', VStr ''assistant''), (''content'', VStr answer)]]"
    if "answer \<noteq> []"
  proof -
    from that len have "fst ?run \<noteq> []" by auto
    then have "last (fst ?run) = fst ?run ! (length answer - 1)"
      by (simp add: last_conv_nth len)
    moreover from that have "length answer - 1 < length answer"
      and "Suc (length answer - 1) = length answer"
      by (cases answer; simp)+
    ultimately show ?thesis
      using reveal_after_append_nth
              [of "length answer - 1" answer "[]" history msg history_for_ml]
      by simp
  qed
  from run len final show ?thesis by blast
qed

text \<open>The concrete endpoints, for the instances below.\<close>

lemma post_request_fixtures:
  "post_request self post_ok msg history_for_ml = Inr response_ok"
  "post_request self post_empty_answer msg history_for_ml = Inr response_empty_answer"
  "post_request self post_no_answer msg history_for_ml = Inr response_no_answer"
  "post_request self post_500 msg history_for_ml = Inr response_500"
  "post_request self post_undecodable msg history_for_ml = Inr response_undecodable"
  "post_request self post_list_body msg history_for_ml = Inr response_list_body"
  by (simp_all add: post_request_def post_ok_def post_empty_answer_def post_no_answer_def
        post_500_def post_undecodable_def post_list_body_def)

lemma fixtures_succeed:
  "\<not> raise_for_status response_ok"
  "json_body response_ok = Some (JDict [(''answer'', JStr ''ok'')])"
  "\<not> raise_for_status response_empty_answer"
  "json_body response_empty_answer = Some (JDict [(''answer'', JStr [])])"
  "\<not> raise_for_status response_no_answer"
  "json_body response_no_answer = Some (JDict [])"
  "status_code response_ok = 200" "reason response_ok = ''OK''"
  "status_code response_no_answer = 200"
  "\<not> raise_for_status response_list_body"
  "json_body response_list_body = Some (JList [])"
  "status_code response_list_body = 200"
  by (simp_all add: raise_for_status_def response_ok_def response_empty_answer_def
        response_no_answer_def response_list_body_def)

lemma fixtures_fail:
  "raise_for_status response_500"
  "\<not> raise_for_status response_undecodable" "json_body response_undecodable = None"
  by (simp_all add: raise_for_status_def response_500_def response_undecodable_def)

lemma fixture_answers:
  "dict_get [(''answer'', JStr ''ok'')] ''answer'' (JStr ''<EMPTY>'') = JStr ''ok''"
  "dict_get [(''answer'', JStr [])] ''answer'' (JStr ''<EMPTY>'') = JStr []"
  by (simp_all add: dict_get_def)

section \<open>Failed calls\<close>

text \<open>
  Claim C1. When the endpoint call fails (a non-success HTTP status, or a success status
  with a body that does not decode), the response emitter raises nothing and returns or
  yields exactly one terminal envelope with an empty display message and the input
  histories. The code does not do this. The endpoint below answers with status 200 and a
  body that is not JSON: \<^const>\<open>exec_api\<close> returns the tuple \<^verbatim>\<open>(None, None, None)\<close>, which
  is true for the guard \<^verbatim>\<open>if not result\<close>, and \<^verbatim>\<open>res_json.get\<close> then raises
  \<^verbatim>\<open>AttributeError\<close> in each of the three variants, before any envelope is yielded,
  leaving both lists as they were.
\<close>

theorem undecodable_body_raises:
  "exec_api demo_app post_undecodable ''hi'' [] = Inr (ApiTuple JNull None None)
   \<and> respond_simple demo_app post_undecodable ''hi'' [] [] = (Inl AttributeError, [], [])
   \<and> respond_stream demo_app post_undecodable ''hi'' [] [] = (([], Some AttributeError), [], [])
   \<and> respond_stream_httplog demo_app post_undecodable ''hi'' [] [] '''' '''' 0
       = (([], Some AttributeError), [], [])"
proof -
  have api: "exec_api demo_app post_undecodable ''hi'' [] = Inr (ApiTuple JNull None None)"
    by (rule exec_api_decode_error [OF post_request_fixtures(5) fixtures_fail(2, 3)])
  show ?thesis
    by (simp add: api respond_simple_def respond_stream_def respond_stream_httplog_def)
qed

text \<open>
  Claim C2. In atomic mode, when the endpoint caller fails (status 500), \<open>respond_simple\<close>
  returns one terminal envelope with an empty display message and the input histories
  unchanged. The code does not do this: the guard ends in a bare \<^verbatim>\<open>return\<close>, so the
  method returns \<^verbatim>\<open>None\<close> and no envelope, where the streaming variant yields one. The
  histories are left unchanged.
\<close>

theorem respond_simple_status_500_returns_none:
  "respond_simple demo_app post_500 ''hi'' [] [] = (Inr None, [], [])
   \<and> respond_stream demo_app post_500 ''hi'' [] []
       = (([\<lparr>bot_message = '''', chat_history = [], chat_history_for_ml = []\<rparr>], None),
          [], [])"
proof -
  have api: "exec_api demo_app post_500 ''hi'' [] = Inr ApiNone"
    by (rule exec_api_http_error [OF post_request_fixtures(4) fixtures_fail(1)])
  show ?thesis
    by (simp add: api respond_simple_def respond_stream_def new_AISimpleResponse_def)
qed

section \<open>Successful calls in streaming mode\<close>

text \<open>
  Claim C3. For every successful call whose answer string has length \<open>N\<close>, the
  streaming-mode sequence yields exactly \<open>N\<close> envelopes; when the answer is the empty
  string the sequence is empty, and this is not an error.
\<close>

theorem respond_stream_length:
  assumes "post_request self post msg (map json_of_entry history_for_ml) = Inr response"
    and "\<not> raise_for_status response"
    and "json_body response = Some (JDict body)"
    and "dict_get body ''answer'' (JStr ''<EMPTY>'') = JStr answer"
  shows "\<exists>envs. fst (respond_stream self post msg history history_for_ml) = (envs, None)
           \<and> length envs = length answer
           \<and> (answer = [] \<longrightarrow> envs = [])"
proof -
  from reveal_after_append [of "[]" answer history msg history_for_ml]
  show ?thesis
    unfolding respond_stream_success [OF assms]
    by (auto simp add: prod_eq_iff)
qed

theorem respond_stream_length_witness:
  "(\<exists>envs. fst (respond_stream demo_app post_ok ''hi'' [] []) = (envs, None) \<and> length envs = 2)
   \<and> fst (respond_stream demo_app post_empty_answer ''hi'' [] []) = ([], None)"
proof -
  from respond_stream_length
         [OF _ fixtures_succeed(1, 2) fixture_answers(1),
          where self = demo_app and post = post_ok and msg = "''hi''" and history = "[]"
            and history_for_ml = "[]"]
    post_request_fixtures(1)
  have "\<exists>envs. fst (respond_stream demo_app post_ok ''hi'' [] []) = (envs, None)
          \<and> length envs = 2"
    by (simp add: numeral_2_eq_2)
  moreover
  from respond_stream_length
         [OF _ fixtures_succeed(3, 4) fixture_answers(2),
          where self = demo_app and post = post_empty_answer and msg = "''hi''"
            and history = "[]" and history_for_ml = "[]"]
    post_request_fixtures(2)
  have "fst (respond_stream demo_app post_empty_answer ''hi'' [] []) = ([], None)"
    by simp
  ultimately show ?thesis by simp
qed

text \<open>
  Claim C4. In streaming mode on a successful call, for every \<open>i\<close> from 1 to \<open>N\<close> (the
  length of the answer), the display history of the \<open>i\<close>-th yielded envelope is the
  updated display log with only its last (assistant) entry replaced by
  \<^verbatim>\<open>{role: "assistant", content: first i characters of the answer}\<close>, all earlier entries
  being unchanged; hence the assistant content of the last envelope is the full answer.
\<close>

theorem respond_stream_reveals_prefixes:
  assumes "post_request self post msg (map json_of_entry history_for_ml) = Inr response"
    and "\<not> raise_for_status response"
    and "json_body response = Some (JDict body)"
    and "dict_get body ''answer'' (JStr ''<EMPTY>'') = JStr answer"
    and "updated = history @ [[(''role'', VStr ''user''), (''content'', VStr msg)],
                              [(''role'', VStr ''assistant''), (''content'', VStr answer)]]"
  shows "\<exists>envs. respond_stream self post msg history history_for_ml
                   = ((envs, None),
                      map json_of_entry updated,
                      map json_of_entry
                        (history_for_ml
                         @ [[(''inputs'', VDict [(''question'', JStr msg)]),
                             (''outputs'', VStr answer)]]))
           \<and> length envs = length answer
           \<and> (\<forall>i. 1 \<le> i \<and> i \<le> length answer \<longrightarrow>
                  chat_history (envs ! (i - 1))
                    = updated [length updated - 1 :=
                                 [(''role'', VStr ''assistant''),
                                  (''content'', VStr (take i answer))]])
           \<and> (answer \<noteq> [] \<longrightarrow> chat_history (last envs) = updated)"
proof -
  let ?display = "map json_of_entry history
                    @ [JDict [(''role'', JStr ''user''), (''content'', JStr msg)],
                       JDict [(''role'', JStr ''assistant''), (''content'', JStr answer)]]"
  let ?ml = "map json_of_entry history_for_ml
               @ [JDict [(''inputs'', JDict [(''question'', JStr msg)]),
                         (''outputs'', JStr answer)]]"
  let ?run = "reveal [] (map (\<lambda>c. JStr [c]) answer) ?display ?ml"
  let ?envs = "fst ?run"
  from reveal_after_append [of "[]" answer history msg history_for_ml]
  have none: "snd ?run = None" and len: "length ?envs = length answer"
    by simp_all
  have run: "respond_stream self post msg history history_for_ml
               = ((?envs, None),
                  map json_of_entry updated,
                  map json_of_entry
                    (history_for_ml
                     @ [[(''inputs'', VDict [(''question'', JStr msg)]),
                         (''outputs'', VStr answer)]]))"
    unfolding respond_stream_success [OF assms(1-4)] assms(5)
    using none by (simp add: prod_eq_iff display_log_json ml_log_json)
  have upd: "updated [length updated - 1 := e]
               = (history @ [[(''role'', VStr ''user''), (''content'', VStr msg)]]) @ [e]" for e
    by (simp add: assms(5) list_update_append)
  have step: "chat_history (?envs ! (i - 1))
                = updated [length updated - 1 :=
                             [(''role'', VStr ''assistant''), (''content'', VStr (take i answer))]]"
    if "1 \<le> i \<and> i \<le> length answer" for i
  proof -
    from that have "i - 1 < length answer" and "Suc (i - 1) = i" by auto
    with reveal_after_append_nth [of "i - 1" answer "[]" history msg history_for_ml]
    have "chat_history (?envs ! (i - 1))
            = (history @ [[(''role'', VStr ''user''), (''content'', VStr msg)]])
              @ [[(''role'', VStr ''assistant''), (''content'', VStr (take i answer))]]"
      by simp
    then show ?thesis by (simp only: upd)
  qed
  have final: "chat_history (last ?envs) = updated" if "answer \<noteq> []"
  proof -
    from that len have "?envs \<noteq> []" by auto
    then have "last ?envs = ?envs ! (length answer - 1)"
      by (simp add: last_conv_nth len)
    moreover from that have "1 \<le> length answer \<and> length answer \<le> length answer"
      by (cases answer) simp_all
    ultimately have "chat_history (last ?envs)
                       = updated [length updated - 1 :=
                                    [(''role'', VStr ''assistant''),
                                     (''content'', VStr (take (length answer) answer))]]"
      using step by simp
    then show ?thesis by (simp add: assms(5) list_update_append)
  qed
  from run len step final show ?thesis by blast
qed

theorem respond_stream_reveals_prefixes_witness:
  "\<exists>envs. respond_stream demo_app post_ok ''hi'' [] []
            = ((envs, None),
               [JDict [(''role'', JStr ''user''), (''content'', JStr ''hi'')],
                JDict [(''role'', JStr ''assistant''), (''content'', JStr ''ok'')]],
               [JDict [(''inputs'', JDict [(''question'', JStr ''hi'')]),
                       (''outputs'', JStr ''ok'')]])
     \<and> length envs = 2
     \<and> chat_history (envs ! 0)
         = [[(''role'', VStr ''user''), (''content'', VStr ''hi'')],
            [(''role'', VStr ''assistant''), (''content'', VStr ''o'')]]
     \<and> chat_history (envs ! 1)
         = [[(''role'', VStr ''user''), (''content'', VStr ''hi'')],
            [(''role'', VStr ''assistant''), (''content'', VStr ''ok'')]]
     \<and> chat_history (last envs)
         = [[(''role'', VStr ''user''), (''content'', VStr ''hi'')],
            [(''role'', VStr ''assistant''), (''content'', VStr ''ok'')]]"
proof -
  have u: "[[(''role'', VStr ''user''), (''content'', VStr ''hi'')],
            [(''role'', VStr ''assistant''), (''content'', VStr ''ok'')]]
           = [] @ [[(''role'', VStr ''user''), (''content'', VStr ''hi'')],
                   [(''role'', VStr ''assistant''), (''content'', VStr ''ok'')]]"
    by simp
  from respond_stream_reveals_prefixes
         [OF _ fixtures_succeed(1, 2) fixture_answers(1) u,
          where self = demo_app and post = post_ok and history_for_ml = "[]"]
    post_request_fixtures(1)
  obtain envs where
    run: "respond_stream demo_app post_ok ''hi'' [] []
            = ((envs, None),
               [JDict [(''role'', JStr ''user''), (''content'', JStr ''hi'')],
                JDict [(''role'', JStr ''assistant''), (''content'', JStr ''ok'')]],
               [JDict [(''inputs'', JDict [(''question'', JStr ''hi'')]),
                       (''outputs'', JStr ''ok'')]])"
    and len: "length envs = 2"
    and pre: "\<And>i. 1 \<le> i \<and> i \<le> 2 \<Longrightarrow>
                chat_history (envs ! (i - 1))
                  = [[(''role'', VStr ''user''), (''content'', VStr ''hi'')],
                     [(''role'', VStr ''assistant''), (''content'', VStr ''ok'')]]
                    [1 := [(''role'', VStr ''assistant''), (''content'', VStr (take i ''ok''))]]"
    and fin: "chat_history (last envs)
                = [[(''role'', VStr ''user''), (''content'', VStr ''hi'')],
                   [(''role'', VStr ''assistant''), (''content'', VStr ''ok'')]]"
    by (auto simp add: numeral_2_eq_2 json_of_entry_def json_of_value_def)
  from pre [of 1]
  have "chat_history (envs ! 0)
          = [[(''role'', VStr ''user''), (''content'', VStr ''hi'')],
             [(''role'', VStr ''assistant''), (''content'', VStr ''o'')]]"
    by simp
  moreover
  from pre [of 2]
  have "chat_history (envs ! 1)
          = [[(''role'', VStr ''user''), (''content'', VStr ''hi'')],
             [(''role'', VStr ''assistant''), (''content'', VStr ''ok'')]]"
    by (simp add: numeral_2_eq_2)
  ultimately show ?thesis using run len fin by blast
qed

text \<open>
  Claim C6. In streaming mode on a successful call, both logs are appended with the
  complete answer once, before the first envelope is yielded: every envelope of the
  sequence carries the same ML history, which already holds the new entry
  \<^verbatim>\<open>{inputs: {question: message}, outputs: full answer}\<close>, while the display history is
  still revealing the answer.
\<close>

theorem respond_stream_ml_history_complete:
  assumes "post_request self post msg (map json_of_entry history_for_ml) = Inr response"
    and "\<not> raise_for_status response"
    and "json_body response = Some (JDict body)"
    and "dict_get body ''answer'' (JStr ''<EMPTY>'') = JStr answer"
  shows "\<exists>envs. respond_stream self post msg history history_for_ml
                   = ((envs, None),
                      map json_of_entry history
                        @ [JDict [(''role'', JStr ''user''), (''content'', JStr msg)],
                           JDict [(''role'', JStr ''assistant''), (''content'', JStr answer)]],
                      map json_of_entry history_for_ml
                        @ [JDict [(''inputs'', JDict [(''question'', JStr msg)]),
                                  (''outputs'', JStr answer)]])
           \<and> length envs = length answer
           \<and> (\<forall>e \<in> set envs.
                  chat_history_for_ml e
                    = history_for_ml
                      @ [[(''inputs'', VDict [(''question'', JStr msg)]),
                          (''outputs'', VStr answer)]])"
proof -
  from reveal_after_append [of "[]" answer history msg history_for_ml]
    reveal_after_append_ml
  show ?thesis
    unfolding respond_stream_success [OF assms]
    by (auto simp add: prod_eq_iff)
qed

theorem respond_stream_ml_history_complete_witness:
  "\<exists>envs. respond_stream demo_app post_ok ''hi'' [] []
            = ((envs, None),
               [JDict [(''role'', JStr ''user''), (''content'', JStr ''hi'')],
                JDict [(''role'', JStr ''assistant''), (''content'', JStr ''ok'')]],
               [JDict [(''inputs'', JDict [(''question'', JStr ''hi'')]),
                       (''outputs'', JStr ''ok'')]])
     \<and> length envs = 2
     \<and> chat_history_for_ml (envs ! 0)
         = [[(''inputs'', VDict [(''question'', JStr ''hi'')]), (''outputs'', VStr ''ok'')]]
     \<and> chat_history_for_ml (envs ! 1)
         = [[(''inputs'', VDict [(''question'', JStr ''hi'')]), (''outputs'', VStr ''ok'')]]"
proof -
  from respond_stream_ml_history_complete
         [OF _ fixtures_succeed(1, 2) fixture_answers(1),
          where self = demo_app and post = post_ok and msg = "''hi''" and history = "[]"
            and history_for_ml = "[]"]
    post_request_fixtures(1)
  obtain envs where
    run: "respond_stream demo_app post_ok ''hi'' [] []
            = ((envs, None),
               [JDict [(''role'', JStr ''user''), (''content'', JStr ''hi'')],
                JDict [(''role'', JStr ''assistant''), (''content'', JStr ''ok'')]],
               [JDict [(''inputs'', JDict [(''question'', JStr ''hi'')]),
                       (''outputs'', JStr ''ok'')]])"
    and len: "length envs = 2"
    and all: "\<And>e. e \<in> set envs \<Longrightarrow>
                chat_history_for_ml e
                  = [[(''inputs'', VDict [(''question'', JStr ''hi'')]),
                      (''outputs'', VStr ''ok'')]]"
    by (auto simp add: numeral_2_eq_2)
  from len have "envs ! 0 \<in> set envs" and "envs ! 1 \<in> set envs"
    by simp_all
  with all run len show ?thesis by blast
qed

section \<open>Both logs after a successful call\<close>

text \<open>
  Claim C5. For every successful call the display log grows by exactly two entries,
  \<^verbatim>\<open>{role: "user", content: message}\<close> then \<^verbatim>\<open>{role: "assistant", content: answer}\<close>, and
  the ML log by exactly one entry, \<^verbatim>\<open>{inputs: {question: message}, outputs: answer}\<close>, no
  earlier entry being removed or reordered; hence if the display log was twice as long
  as the ML log before the turn, it is so after it. This holds for the lists that each
  of the three variants leaves, and for the envelope of the atomic variant.
\<close>

theorem logs_grow_by_one_turn:
  assumes "post_request self post msg (map json_of_entry history_for_ml) = Inr response"
    and "\<not> raise_for_status response"
    and "json_body response = Some (JDict body)"
    and "dict_get body ''answer'' (JStr ''<EMPTY>'') = JStr answer"
  shows "\<exists>display_log ml_log.
           snd (respond_simple self post msg history history_for_ml) = (display_log, ml_log)
         \<and> snd (respond_stream self post msg history history_for_ml) = (display_log, ml_log)
         \<and> snd (respond_stream_httplog self post msg history history_for_ml log doc count)
             = (display_log, ml_log)
         \<and> display_log
             = map json_of_entry history
               @ [JDict [(''role'', JStr ''user''), (''content'', JStr msg)],
                  JDict [(''role'', JStr ''assistant''), (''content'', JStr answer)]]
         \<and> ml_log
             = map json_of_entry history_for_ml
               @ [JDict [(''inputs'', JDict [(''question'', JStr msg)]),
                         (''outputs'', JStr answer)]]
         \<and> fst (respond_simple self post msg history history_for_ml)
             = Inr (Some \<lparr>bot_message = '''',
                          chat_history =
                            history
                            @ [[(''role'', VStr ''user''), (''content'', VStr msg)],
                               [(''role'', VStr ''assistant''), (''content'', VStr answer)]],
                          chat_history_for_ml =
                            history_for_ml
                            @ [[(''inputs'', VDict [(''question'', JStr msg)]),
                                (''outputs'', VStr answer)]]\<rparr>)
         \<and> length display_log = length history + 2
         \<and> length ml_log = length history_for_ml + 1
         \<and> (length history = 2 * length history_for_ml
              \<longrightarrow> length display_log = 2 * length ml_log)"
  by (simp add: respond_simple_success [OF assms] respond_stream_success [OF assms]
        respond_stream_httplog_success [OF assms refl])

theorem logs_grow_by_one_turn_witness:
  "respond_simple demo_app post_ok ''hi'' [] []
     = (Inr (Some \<lparr>bot_message = '''',
                   chat_history =
                     [[(''role'', VStr ''user''), (''content'', VStr ''hi'')],
                      [(''role'', VStr ''assistant''), (''content'', VStr ''ok'')]],
                   chat_history_for_ml =
                     [[(''inputs'', VDict [(''question'', JStr ''hi'')]),
                       (''outputs'', VStr ''ok'')]]\<rparr>),
        [JDict [(''role'', JStr ''user''), (''content'', JStr ''hi'')],
         JDict [(''role'', JStr ''assistant''), (''content'', JStr ''ok'')]],
        [JDict [(''inputs'', JDict [(''question'', JStr ''hi'')]), (''outputs'', JStr ''ok'')]])
   \<and> snd (respond_stream demo_app post_ok ''hi'' [] [])
       = ([JDict [(''role'', JStr ''user''), (''content'', JStr ''hi'')],
           JDict [(''role'', JStr ''assistant''), (''content'', JStr ''ok'')]],
          [JDict [(''inputs'', JDict [(''question'', JStr ''hi'')]), (''outputs'', JStr ''ok'')]])
   \<and> snd (respond_stream_httplog demo_app post_ok ''hi'' [] [] '''' '''' 0)
       = ([JDict [(''role'', JStr ''user''), (''content'', JStr ''hi'')],
           JDict [(''role'', JStr ''assistant''), (''content'', JStr ''ok'')]],
          [JDict [(''inputs'', JDict [(''question'', JStr ''hi'')]), (''outputs'', JStr ''ok'')]])
   \<and> length ([] :: entry list) = 2 * length ([] :: entry list)"
proof -
  from logs_grow_by_one_turn
         [OF _ fixtures_succeed(1, 2) fixture_answers(1),
          where self = demo_app and post = post_ok and msg = "''hi''" and history = "[]"
            and history_for_ml = "[]" and log = "''''" and doc = "''''" and count = 0]
    post_request_fixtures(1)
  show ?thesis by (auto simp add: prod_eq_iff)
qed

section \<open>A decoded body without an answer\<close>

text \<open>
  Claim C9, as amended. For every successful call (status 200) whose decoded body is a
  JSON object without an \<^verbatim>\<open>answer\<close> key, the pipeline does not fail: the answer is the
  literal string \<^verbatim>\<open><EMPTY>\<close>, and both the display log and the ML log record that string
  as the assistant output.
\<close>

theorem missing_answer_gives_sentinel:
  assumes "post_request self post msg (map json_of_entry history_for_ml) = Inr response"
    and "status_code response = 200"
    and "json_body response = Some (JDict body)"
    and "map_of body ''answer'' = None"
  shows "respond_simple self post msg history history_for_ml
           = (Inr (Some \<lparr>bot_message = '''',
                         chat_history =
                           history
                           @ [[(''role'', VStr ''user''), (''content'', VStr msg)],
                              [(''role'', VStr ''assistant''), (''content'', VStr ''<EMPTY>'')]],
                         chat_history_for_ml =
                           history_for_ml
                           @ [[(''inputs'', VDict [(''question'', JStr msg)]),
                               (''outputs'', VStr ''<EMPTY>'')]]\<rparr>),
              map json_of_entry history
                @ [JDict [(''role'', JStr ''user''), (''content'', JStr msg)],
                   JDict [(''role'', JStr ''assistant''), (''content'', JStr ''<EMPTY>'')]],
              map json_of_entry history_for_ml
                @ [JDict [(''inputs'', JDict [(''question'', JStr msg)]),
                          (''outputs'', JStr ''<EMPTY>'')]])
       \<and> (\<exists>envs. respond_stream self post msg history history_for_ml
                    = ((envs, None),
                       map json_of_entry history
                         @ [JDict [(''role'', JStr ''user''), (''content'', JStr msg)],
                            JDict [(''role'', JStr ''assistant''),
                                   (''content'', JStr ''<EMPTY>'')]],
                       map json_of_entry history_for_ml
                         @ [JDict [(''inputs'', JDict [(''question'', JStr msg)]),
                                   (''outputs'', JStr ''<EMPTY>'')]])
              \<and> length envs = 7
              \<and> chat_history (last envs)
                  = history
                    @ [[(''role'', VStr ''user''), (''content'', VStr msg)],
                       [(''role'', VStr ''assistant''), (''content'', VStr ''<EMPTY>'')]])"
proof -
  from assms(2) have ok: "\<not> raise_for_status response"
    by (simp add: raise_for_status_def)
  from assms(4) have sentinel: "dict_get body ''answer'' (JStr ''<EMPTY>'') = JStr ''<EMPTY>''"
    by (simp add: dict_get_def)
  note simple = respond_simple_success [OF assms(1) ok assms(3) sentinel]
  from respond_stream_run [OF assms(1) ok assms(3) sentinel, where history = history]
  have "\<exists>envs. respond_stream self post msg history history_for_ml
                  = ((envs, None),
                     map json_of_entry history
                       @ [JDict [(''role'', JStr ''user''), (''content'', JStr msg)],
                          JDict [(''role'', JStr ''assistant''),
                                 (''content'', JStr ''<EMPTY>'')]],
                     map json_of_entry history_for_ml
                       @ [JDict [(''inputs'', JDict [(''question'', JStr msg)]),
                                 (''outputs'', JStr ''<EMPTY>'')]])
          \<and> length envs = 7
          \<and> chat_history (last envs)
              = history
                @ [[(''role'', VStr ''user''), (''content'', VStr msg)],
                   [(''role'', VStr ''assistant''), (''content'', VStr ''<EMPTY>'')]]"
    by (simp add: eval_nat_numeral)
  with simple show ?thesis by blast
qed

theorem missing_answer_gives_sentinel_witness:
  "map_of ([] :: (string \<times> json) list) ''answer'' = None
   \<and> respond_simple demo_app post_no_answer ''hi'' [] []
       = (Inr (Some \<lparr>bot_message = '''',
                     chat_history =
                       [[(''role'', VStr ''user''), (''content'', VStr ''hi'')],
                        [(''role'', VStr ''assistant''), (''content'', VStr ''<EMPTY>'')]],
                     chat_history_for_ml =
                       [[(''inputs'', VDict [(''question'', JStr ''hi'')]),
                         (''outputs'', VStr ''<EMPTY>'')]]\<rparr>),
          [JDict [(''role'', JStr ''user''), (''content'', JStr ''hi'')],
           JDict [(''role'', JStr ''assistant''), (''content'', JStr ''<EMPTY>'')]],
          [JDict [(''inputs'', JDict [(''question'', JStr ''hi'')]),
                  (''outputs'', JStr ''<EMPTY>'')]])
   \<and> (\<exists>envs. respond_stream demo_app post_no_answer ''hi'' [] []
                = ((envs, None),
                   [JDict [(''role'', JStr ''user''), (''content'', JStr ''hi'')],
                    JDict [(''role'', JStr ''assistant''), (''content'', JStr ''<EMPTY>'')]],
                   [JDict [(''inputs'', JDict [(''question'', JStr ''hi'')]),
                           (''outputs'', JStr ''<EMPTY>'')]])
          \<and> length envs = 7
          \<and> chat_history (last envs)
              = [[(''role'', VStr ''user''), (''content'', VStr ''hi'')],
                 [(''role'', VStr ''assistant''), (''content'', VStr ''<EMPTY>'')]])"
proof -
  have none: "map_of ([] :: (string \<times> json) list) ''answer'' = None"
    by simp
  from missing_answer_gives_sentinel
         [OF _ fixtures_succeed(9, 6) none,
          where self = demo_app and post = post_no_answer and msg = "''hi''"
            and history = "[]" and history_for_ml = "[]"]
    post_request_fixtures(3)
  show ?thesis by simp
qed

text \<open>
  Claim C9, as stated: for every successful call (status 200, decodable body) whose
  decoded body has no \<^verbatim>\<open>answer\<close> key the pipeline does not fail. It fails where the body
  decodes to something that is not a dictionary. Here the endpoint answers status 200
  with the JSON text \<^verbatim>\<open>[]\<close>: the decoded list has no \<^verbatim>\<open>get\<close>, and both variants raise
  \<^verbatim>\<open>AttributeError\<close> with nothing recorded in either log.
\<close>

theorem list_body_without_answer_raises:
  "status_code response_list_body = 200
   \<and> json_body response_list_body = Some (JList [])
   \<and> respond_simple demo_app post_list_body ''hi'' [] [] = (Inl AttributeError, [], [])
   \<and> respond_stream demo_app post_list_body ''hi'' [] [] = (([], Some AttributeError), [], [])"
proof -
  have api: "exec_api demo_app post_list_body ''hi'' []
               = Inr (ApiTuple (JList []) (Some 200) (Some ''OK''))"
    using exec_api_success [OF post_request_fixtures(6) fixtures_succeed(10, 11)]
    by (simp add: response_list_body_def)
  show ?thesis
    by (simp add: api respond_simple_def respond_stream_def fixtures_succeed(11, 12))
qed

section \<open>The streaming variant with the call log\<close>

text \<open>
  What every envelope of a successful call carries: the three audit values are computed
  once before the reveal loop, so the envelopes of one sequence share them.
\<close>

lemma httplog_envelopes_share_audit_values:
  assumes "post_request self post msg (map json_of_entry history_for_ml) = Inr response"
    and "\<not> raise_for_status response"
    and "json_body response = Some (JDict body)"
    and "dict_get body ''answer'' (JStr ''<EMPTY>'') = JStr answer"
    and "entry = create_http_log (count + 1) self
                   (JDict [(''question'', JStr msg),
                           (''chat_history'', JList (map json_of_entry history_for_ml))])
                   (JDict body) (Some (status_code response)) (Some (reason response))"
  shows "\<exists>envs. fst (respond_stream_httplog self post msg history history_for_ml log doc count)
                   = (envs, None)
           \<and> length envs = length answer
           \<and> (\<forall>e \<in> set envs. \<exists>c. e = Custom c
                  \<and> call_count c = count + 1
                  \<and> call_history c = log @ entry
                  \<and> call_log_md_display c = format_http_log (log @ entry))"
proof -
  from reveal_httplog_after_append
         [of "[]" answer history msg history_for_ml "log @ entry"
             "format_http_log (log @ entry)" "count + 1"]
    reveal_httplog_audit_values
  show ?thesis
    unfolding respond_stream_httplog_success [OF assms]
    by (fastforce simp add: prod_eq_iff)
qed


text \<open>
  Claim C10. In the streaming-with-audit variant the single envelope yielded when the
  endpoint call fails is a plain envelope, an \<^verbatim>\<open>AISimpleResponse\<close>: it has no call history,
  call log document or call count, although every envelope of the success path of this
  variant is an \<^verbatim>\<open>AICustomResponse\<close> with all three.
\<close>

theorem httplog_failure_envelope_is_plain:
  assumes "post_request self post msg (map json_of_entry history_for_ml) = Inr response"
  shows "(raise_for_status response \<longrightarrow>
            respond_stream_httplog self post msg history history_for_ml log doc count
              = (([Simple \<lparr>bot_message = '''', chat_history = history,
                            chat_history_for_ml = history_for_ml\<rparr>], None),
                 map json_of_entry history, map json_of_entry history_for_ml))
       \<and> (\<not> raise_for_status response \<longrightarrow>
            (\<forall>e \<in> set (fst (fst (respond_stream_httplog self post msg history history_for_ml
                                    log doc count))). \<exists>c. e = Custom c)
            \<and> (\<forall>body answer.
                 json_body response = Some (JDict body)
                 \<and> dict_get body ''answer'' (JStr ''<EMPTY>'') = JStr answer \<longrightarrow>
                 (\<exists>envs. fst (respond_stream_httplog self post msg history history_for_ml
                                 log doc count) = (envs, None)
                    \<and> length envs = length answer
                    \<and> (\<forall>e \<in> set envs. \<exists>c. e = Custom c))))"
proof (intro conjI impI allI)
  assume "raise_for_status response"
  from exec_api_http_error [OF assms this]
  show "respond_stream_httplog self post msg history history_for_ml log doc count
          = (([Simple \<lparr>bot_message = '''', chat_history = history,
                        chat_history_for_ml = history_for_ml\<rparr>], None),
             map json_of_entry history, map json_of_entry history_for_ml)"
    by (simp add: respond_stream_httplog_def new_AISimpleResponse_json)
next
  assume ok: "\<not> raise_for_status response"
  show "\<forall>e \<in> set (fst (fst (respond_stream_httplog self post msg history history_for_ml
                               log doc count))). \<exists>c. e = Custom c"
  proof
    fix e
    assume "e \<in> set (fst (fst (respond_stream_httplog self post msg history history_for_ml
                                  log doc count)))"
    with assms ok show "\<exists>c. e = Custom c"
      by (auto simp add: respond_stream_httplog_def exec_api_post_request Let_def
            split: option.splits sum.splits
            dest: reveal_httplog_audit_values)
  qed
next
  fix body answer
  assume ok: "\<not> raise_for_status response"
    and body: "json_body response = Some (JDict body)
               \<and> dict_get body ''answer'' (JStr ''<EMPTY>'') = JStr answer"
  from httplog_envelopes_share_audit_values [OF assms ok conjunct1 [OF body] conjunct2 [OF body] refl]
  show "\<exists>envs. fst (respond_stream_httplog self post msg history history_for_ml log doc count)
                  = (envs, None)
          \<and> length envs = length answer
          \<and> (\<forall>e \<in> set envs. \<exists>c. e = Custom c)"
    by blast
qed

theorem httplog_failure_envelope_is_plain_witness:
  "raise_for_status response_500
   \<and> respond_stream_httplog demo_app post_500 ''hi'' [] [] '''' '''' 0
       = (([Simple \<lparr>bot_message = '''', chat_history = [], chat_history_for_ml = []\<rparr>], None),
          [], [])
   \<and> \<not> raise_for_status response_ok
   \<and> (\<exists>envs. fst (respond_stream_httplog demo_app post_ok ''hi'' [] [] '''' '''' 0)
                = (envs, None)
          \<and> length envs = 2
          \<and> (\<exists>c. envs ! 0 = Custom c) \<and> (\<exists>c. envs ! 1 = Custom c))"
proof -
  from httplog_failure_envelope_is_plain
         [where self = demo_app and post = post_500 and msg = "''hi''" and history = "[]"
            and history_for_ml = "[]" and log = "''''" and doc = "''''" and count = 0
            and response = response_500]
    post_request_fixtures(4) fixtures_fail(1)
  have failure: "respond_stream_httplog demo_app post_500 ''hi'' [] [] '''' '''' 0
                   = (([Simple \<lparr>bot_message = '''', chat_history = [],
                                 chat_history_for_ml = []\<rparr>], None), [], [])"
    by simp
  from httplog_failure_envelope_is_plain
         [where self = demo_app and post = post_ok and msg = "''hi''" and history = "[]"
            and history_for_ml = "[]" and log = "''''" and doc = "''''" and count = 0
            and response = response_ok]
    post_request_fixtures(1) fixtures_succeed(1, 2) fixture_answers(1)
  obtain envs where
    run: "fst (respond_stream_httplog demo_app post_ok ''hi'' [] [] '''' '''' 0) = (envs, None)"
    and len: "length envs = length ''ok''"
    and all: "\<And>e. e \<in> set envs \<Longrightarrow> \<exists>c. e = Custom c"
    by blast
  from len have len2: "length envs = 2"
    by simp
  then have "envs ! 0 \<in> set envs" and "envs ! 1 \<in> set envs"
    by simp_all
  with all run len2 failure fixtures_fail(1) fixtures_succeed(1) show ?thesis by blast
qed

section \<open>The call log and the credential\<close>

text \<open>Containment of one string in another is \<^const>\<open>sublist\<close>: a contiguous run.\<close>

lemma sublist_skip: "sublist xs ys \<Longrightarrow> sublist xs (zs @ ys)"
  by (metis sublist_append)

lemma sublist_keep: "sublist xs ys \<Longrightarrow> sublist xs (ys @ zs)"
  by (metis sublist_append)

lemma masked_header: \<open>sublist
   ''<span class="token header-name keyword">Authorization</span><span class="token punctuation">: </span><span class="token header-value">Bearer &lt; MASKED_APIKey &gt;</span></span>\<newline>''
   (''<span class="token header"><span class="token header-name keyword">Authorization</span><span class="token punctuation">: </span><span class="token header-value">Bearer &lt; MASKED_APIKey &gt;</span></span>\<newline>'' @ zs)\<close>
  by (rule sublist_keep) code_simp

lemma json_dumps_question:
  \<open>json_dumps (JDict [(''question'', JStr ''s3cr3t''), (''chat_history'', JList [])])
     = ''{\<newline>    "question": "s3cr3t",\<newline>    "chat_history": []\<newline>}''\<close>
  by (simp add: json_dumps_def newline_indent_def encode_basestring_def escape_char_def
        eval_nat_numeral)

lemma question_in_dumps:
  "sublist ''s3cr3t''
     (json_dumps (JDict [(''question'', JStr ''s3cr3t''), (''chat_history'', JList [])]) @ zs)"
  unfolding json_dumps_question by (rule sublist_keep) code_simp

text \<open>
  Claim C8, as amended. The formatted log entry is computed without reading the
  credential: the entries of two application objects that differ only in the bearer
  token are identical, and so are the documents rendered from them; the Authorization
  header is always rendered with the fixed placeholder
  \<^verbatim>\<open>Bearer &lt; MASKED_APIKey &gt;\<close>. Nothing is said of text that reaches the entry
  through the other fields of the call record (path, host, deployment name, request
  body, response body, status line).
\<close>

theorem create_http_log_masks_credential:
  \<open>create_http_log n (cls\<lparr>endpoint_key := key\<rparr>) jinput joutput code phrase
     = create_http_log n cls jinput joutput code phrase
   \<and> format_http_log (log @ create_http_log n (cls\<lparr>endpoint_key := key\<rparr>) jinput joutput code phrase)
     = format_http_log (log @ create_http_log n cls jinput joutput code phrase)
   \<and> sublist
       ''<span class="token header-name keyword">Authorization</span><span class="token punctuation">: </span><span class="token header-value">Bearer &lt; MASKED_APIKey &gt;</span></span>\<newline>''
       (create_http_log n cls jinput joutput code phrase)\<close>
proof -
  have same: "create_http_log n (cls\<lparr>endpoint_key := key\<rparr>) jinput joutput code phrase
                = create_http_log n cls jinput joutput code phrase"
    by (simp add: create_http_log_def)
  have shown: \<open>sublist
       ''<span class="token header-name keyword">Authorization</span><span class="token punctuation">: </span><span class="token header-value">Bearer &lt; MASKED_APIKey &gt;</span></span>\<newline>''
       (create_http_log n cls jinput joutput code phrase)\<close>
    unfolding create_http_log_def by (rule masked_header | rule sublist_skip)+
  from same shown show ?thesis by simp
qed

text \<open>
  Claim C8, as stated: for every call record and every credential value the formatted
  entry never contains the raw credential. It fails where the credential is part of
  another field. Here the user's message is the text of the application's key, so the
  request body of the call record, which \<^const>\<open>create_http_log\<close> prints in full, holds it.
\<close>

theorem log_entry_contains_credential:
  "sublist (endpoint_key demo_app)
     (create_http_log 1 demo_app
        (JDict [(''question'', JStr ''s3cr3t''), (''chat_history'', JList [])])
        (JDict [(''answer'', JStr ''ok'')]) (Some 200) (Some ''OK''))"
proof -
  have key: "endpoint_key demo_app = ''s3cr3t''"
    by (simp add: demo_app_def)
  show ?thesis
    unfolding key create_http_log_def by (rule question_in_dumps | rule sublist_skip)+
qed

end
